theory Spec2Isabelle
  imports Complex_Main
begin

section \<open>Data model of \<open>torch/distributed/_tools/runtime_estimator.py\<close>\<close>

text \<open>
  Exceptions are values: every function of the module that can raise returns
  \<open>error + 'a\<close>, with \<open>Inl\<close> for the exception. Times are Python floats; they are
  modelled as real numbers. Python integers that count bytes are natural numbers.
\<close>

datatype error =
    AssertionError
  | TypeError
  | NotImplementedError
  | AttributeError
  | ZeroDivisionError
  | RuntimeError
  | KeyError
  | OtherError string

datatype dtype = float16 | bfloat16 | float32 | float64 | int32 | int64 | bool8

text \<open>\<open>RuntimeEstimator._float_types\<close>.\<close>

definition float_types :: "dtype set" where
  "float_types = {float16, bfloat16, float32, float64}"

text \<open>
  A tensor, as far as the module looks at it: its identity \<open>id(t)\<close>, its dtype, its
  layout (a strided tensor has a storage, named by \<open>_typed_storage()._cdata\<close>; a sparse
  tensor has none and carries its coalesced flag), the size of its storage
  \<open>untyped_storage().nbytes()\<close>, the fake mode it belongs to (\<open>None\<close> for a real
  tensor) and how its data was produced.
\<close>

datatype layout = Strided nat | Sparse bool

datatype contents = no_data | rand_fill | ones_fill | computed

record tensor =
  ident :: nat
  dtype :: dtype
  layout :: layout
  nbytes :: nat
  fake_of :: "nat option"
  contents :: contents

text \<open>A leaf of a flattened pytree: a tensor or anything else.\<close>

datatype leaf = Tensor tensor | NonTensor int

definition is_sparse :: "tensor \<Rightarrow> bool" where
  "is_sparse t = (case layout t of Sparse c \<Rightarrow> True | Strided s \<Rightarrow> False)"

text \<open>
  What the benchmark does on the device after the first call of the real kernel, step
  by step: the second to sixth launch of the kernel, the creation and recording of the
  start event before the timed launches, and the recording of the end event with the
  synchronisation and the reading of the elapsed time after them.
\<close>

datatype bench_step = launch nat | start_events | end_events

text \<open>
  An operator overload \<open>func\<close>: its overload packet, whether \<open>torch.Tag.inplace_view\<close>
  is among its tags, what calling it does under the symbolic (fake tensor) mode, what
  its first call does on real tensors under \<open>no_dispatch()\<close>, the exception that a
  later step of the benchmark raises for it (if any), and the time in milliseconds the
  device's events measure around the three timed calls. All calls take and return
  flattened pytrees (\<open>tree_unflatten\<close> undoes \<open>tree_flatten\<close>).
\<close>

record op_overload =
  overloadpacket :: string
  inplace_view :: bool
  symbolic_call :: "leaf list \<Rightarrow> error + leaf list"
  real_call :: "leaf list \<Rightarrow> error + leaf list"
  raises :: "bench_step \<Rightarrow> leaf list \<Rightarrow> error option"
  elapsed_time :: "leaf list \<Rightarrow> real"

text \<open>An entry of \<open>flop_registry\<close>, called as \<open>f(*args, **kwargs, out_val=out)\<close>.\<close>

type_synonym formula = "leaf list \<Rightarrow> leaf list \<Rightarrow> error + real"

text \<open>
  What the module reads from outside: \<open>torch.cuda.is_available()\<close>,
  \<open>get_gpu_dram_gbps()\<close>, \<open>get_device_tflops(dtype)\<close>, \<open>active_fake_mode()\<close> (a fake
  tensor mode is named by a number), the environment variable
  \<open>PYTORCH_NO_CUDA_MEMORY_CACHING\<close>, the exception that \<open>rand_like\<close>/\<open>ones_like\<close>
  raises when a real tensor is made on the device for a strided fake tensor (if any),
  the exception that \<open>from_real_tensor\<close> raises for a real output (if any), and the
  wrapped timing function \<open>mm_time\<close> that \<open>_learned_estimate_predictor\<close> defines
  around a pickled predictor, seen as the registry calls it.
\<close>

record env =
  cuda_is_available :: bool
  gpu_dram_gbps :: real
  device_tflops :: "dtype \<Rightarrow> real"
  active_fake_mode :: "nat option"
  NO_CUDA_MEMORY_CACHING :: int
  like_error :: "tensor \<Rightarrow> error option"
  from_real_error :: "tensor \<Rightarrow> error option"
  mm_time :: formula

text \<open>
  Process-wide state: the class attributes \<open>fake_mode\<close> (declared by an annotation
  only, so unassigned until \<open>__enter__\<close> stores one) and \<open>_no_fallback_kernel\<close>, the
  dictionary \<open>flop_registry\<close>, and a trace of what happened on the device: the real
  tensors materialised by \<open>rand_like\<close>/\<open>ones_like\<close> and the number of real kernel
  launches.
\<close>

record process =
  fake_mode :: "nat option"
  no_fallback_kernel :: "string set"
  flop_registry :: "string \<rightharpoonup> formula"
  realized :: "tensor list"
  launches :: nat

text \<open>
  Modelled from the spec: the Call-Scope Tracker (\<open>ModTracker\<close>, not in this file)
  registers four hook callbacks, exposes the currently open scope qualifiers (a set,
  held here as a list) and a current-phase flag, and unregisters on demand.
\<close>

record mod_tracker =
  parents :: "string list"
  is_bw :: bool
  user_hooks :: bool
  tracking :: bool

datatype strategy = Benchmark | Roofline | Learned

text \<open>
  A \<open>RuntimeEstimator\<close> instance. \<open>_estimate\<close> and \<open>_estimate_mode_type\<close> are only
  annotated in \<open>__init__\<close>: they do not exist before \<open>__call__\<close> sets them.
  \<open>mod_runtimes\<close> is a \<open>defaultdict\<close> of \<open>defaultdict\<close>s with default \<open>0.0\<close>.
  \<open>intercepting\<close> says whether the instance is on the dispatch mode stack
  (\<open>TorchDispatchMode.__enter__\<close>/\<open>__exit__\<close>).
\<close>

record estimator =
  estimate :: "strategy option"
  estimate_mode_type :: "string option"
  tracker :: mod_tracker
  mod_runtimes :: "string \<rightharpoonup> (string \<rightharpoonup> real)"
  mod_fw_pre_order :: "string list"
  mod_bw_pre_order :: "string list"
  mod_fw_post_order :: "string list"
  mod_bw_post_order :: "string list"
  total_runtime :: real
  intercepting :: bool

subsection \<open>Module constants\<close>

definition PYTORCH_MIN_ALLOCATE :: "env \<Rightarrow> nat" where
  "PYTORCH_MIN_ALLOCATE ev = (if NO_CUDA_MEMORY_CACHING ev = 0 then 2 ^ 9 else 1)"

definition VIEW_OPS :: "string set" where
  "VIEW_OPS = {
     ''aten.lift_fresh'', ''aten.t'', ''aten.transpose'', ''aten.view'', ''aten.detach'',
     ''aten._unsafe_view'', ''aten.split'', ''aten.adjoint'', ''aten.as_strided'',
     ''aten.diagonal'', ''aten.expand'', ''aten.expand_as'', ''aten.movedim'',
     ''aten.permute'', ''aten.select'', ''aten.squeeze'', ''aten.mT'', ''aten.mH'',
     ''aten.real'', ''aten.imag'', ''aten.view_as'', ''aten.unflatten'', ''aten.unfold'',
     ''aten.unbind'', ''aten.unsqueeze'', ''aten.vsplit'', ''aten.hsplit'',
     ''aten.split_with_sizes'', ''aten.swapaxes'', ''aten.swapdims'', ''aten.chunk''}"

definition CREATE_OPS :: "string set" where
  "CREATE_OPS = {
     ''aten.randint'', ''aten.randn'', ''aten.rand'', ''aten.randn_like'',
     ''aten.rand_like'', ''aten.randint_like'', ''aten.arange'', ''aten.ones_like'',
     ''aten.zeros_like''}"

definition IGNORE_OPS :: "string set" where
  "IGNORE_OPS = VIEW_OPS \<union> CREATE_OPS"

section \<open>Activation and deactivation\<close>

text \<open>
  \<open>__call__\<close>: selects the strategy by name. The commented-out
  \<open>operator-level-learned-cost-model\<close> branch falls to the \<open>else\<close>.
\<close>

definition estimator_call :: "string \<Rightarrow> estimator \<Rightarrow> error + estimator" where
  "estimator_call mode_type self =
     (if mode_type = ''operator-level-benchmark'' then
        Inr (self\<lparr>estimate := Some Benchmark, estimate_mode_type := Some mode_type\<rparr>)
      else if mode_type = ''operator-level-cost-model'' then
        Inr (self\<lparr>estimate := Some Roofline, estimate_mode_type := Some mode_type\<rparr>)
      else if mode_type = ''operator-level-learned-model'' then
        Inr (self\<lparr>estimate := Some Learned, estimate_mode_type := Some mode_type\<rparr>)
      else Inl NotImplementedError)"

text \<open>
  The four lambdas that \<open>__enter__\<close> registers: each appends the scope's qualified
  name (\<open>get_known_fqn(mod)\<close>) to its order log.
\<close>

datatype hook = pre_fw_hook | pre_bw_hook | post_fw_hook | post_bw_hook

definition user_hook :: "hook \<Rightarrow> string \<Rightarrow> estimator \<Rightarrow> estimator" where
  "user_hook h fqn self =
     (if \<not> user_hooks (tracker self) then self
      else case h of
        pre_fw_hook \<Rightarrow> self\<lparr>mod_fw_pre_order := mod_fw_pre_order self @ [fqn]\<rparr>
      | pre_bw_hook \<Rightarrow> self\<lparr>mod_bw_pre_order := mod_bw_pre_order self @ [fqn]\<rparr>
      | post_fw_hook \<Rightarrow> self\<lparr>mod_fw_post_order := mod_fw_post_order self @ [fqn]\<rparr>
      | post_bw_hook \<Rightarrow> self\<lparr>mod_bw_post_order := mod_bw_post_order self @ [fqn]\<rparr>)"

text \<open>
  \<open>__enter__\<close>: asserts that a fake tensor mode is active, stores it in the class,
  resets the accumulators, registers the hooks, enters the tracker and pushes the
  instance on the dispatch mode stack.
\<close>

definition estimator_enter ::
  "env \<Rightarrow> estimator \<times> process \<Rightarrow> (error + unit) \<times> estimator \<times> process" where
  "estimator_enter ev s =
     (case s of (self, p) \<Rightarrow>
        (case active_fake_mode ev of
           None \<Rightarrow> (Inl AssertionError, self, p)
         | Some fm \<Rightarrow>
             (Inr (),
              self\<lparr>total_runtime := 0,
                   mod_runtimes := Map.empty,
                   mod_fw_pre_order := [],
                   mod_bw_pre_order := [],
                   mod_fw_post_order := [],
                   mod_bw_post_order := [],
                   tracker := (tracker self)\<lparr>user_hooks := True, tracking := True\<rparr>,
                   intercepting := True\<rparr>,
              p\<lparr>fake_mode := Some fm\<rparr>)))"

text \<open>
  \<open>__exit__\<close>: prints the total (the f-string reads \<open>_estimate_mode_type\<close> and
  \<open>total_runtime\<close>) and the operators without fallback kernel, pops the instance
  from the dispatch mode stack, clears the hooks and leaves the tracker. The argument
  is the exception that ended the \<open>with\<close> block, if any; it is only passed on to
  \<open>super().__exit__\<close>.
\<close>

definition estimator_exit ::
  "error option \<Rightarrow> estimator \<times> process \<Rightarrow> (error + unit) \<times> estimator \<times> process" where
  "estimator_exit exc s =
     (case s of (self, p) \<Rightarrow>
        (case estimate_mode_type self of
           None \<Rightarrow> (Inl AttributeError, self, p)
         | Some m \<Rightarrow>
             (Inr (),
              self\<lparr>intercepting := False,
                   tracker := (tracker self)\<lparr>user_hooks := False, tracking := False\<rparr>\<rparr>,
              p)))"

section \<open>The benchmark strategy\<close>

text \<open>
  \<open>to_real_tensor\<close> over the flattened arguments. A tensor of the class's fake mode
  is replaced by a new real tensor (\<open>rand_like\<close> for a floating dtype, \<open>ones_like\<close>
  otherwise) and \<open>inp_impls[id(out)] = e\<close> is recorded; anything else is passed
  through. \<open>rand_like\<close> and \<open>ones_like\<close> are not implemented for a sparse fake tensor:
  they raise \<open>NotImplementedError\<close>, so the \<open>_coalesced_\<close> line is never reached. For
  a strided one they may raise what the device raises. The first exception ends the
  realization; the tensors made before it stay recorded. A new tensor gets an identity
  and a storage that no argument has: \<open>fresh_handle\<close> is above every identity and
  storage among the arguments, and the counter \<open>n\<close> grows with each tensor made.
\<close>

definition handles_of :: "leaf \<Rightarrow> nat list" where
  "handles_of e =
     (case e of
        NonTensor v \<Rightarrow> []
      | Tensor t \<Rightarrow> (case layout t of Strided c \<Rightarrow> [ident t, c] | Sparse b \<Rightarrow> [ident t]))"

definition fresh_handle :: "leaf list \<Rightarrow> nat" where
  "fresh_handle flat_args = Suc (fold max (concat (map handles_of flat_args)) 0)"

definition is_our_fake :: "nat \<Rightarrow> tensor \<Rightarrow> bool" where
  "is_our_fake fm e = (fake_of e = Some fm)"

definition new_real_tensor :: "nat \<Rightarrow> tensor \<Rightarrow> tensor" where
  "new_real_tensor n e =
     e\<lparr>ident := n,
       layout := Strided n,
       fake_of := None,
       contents := (if dtype e \<in> float_types then rand_fill else ones_fill)\<rparr>"

definition to_real_tensor :: "env \<Rightarrow> nat \<Rightarrow> tensor \<Rightarrow> error + tensor" where
  "to_real_tensor ev n e =
     (if is_sparse e then Inl NotImplementedError
      else case like_error ev e of
        Some err \<Rightarrow> Inl err
      | None \<Rightarrow> Inr (new_real_tensor n e))"

fun to_real_tensors ::
  "env \<Rightarrow> nat \<Rightarrow> nat \<Rightarrow> leaf list \<Rightarrow> (error + leaf list) \<times> (nat \<times> tensor) list" where
  "to_real_tensors ev fm n [] = (Inr [], [])"
| "to_real_tensors ev fm n (NonTensor v # es) =
     (case to_real_tensors ev fm n es of
        (Inl err, impls) \<Rightarrow> (Inl err, impls)
      | (Inr rs, impls) \<Rightarrow> (Inr (NonTensor v # rs), impls))"
| "to_real_tensors ev fm n (Tensor e # es) =
     (if is_our_fake fm e then
        (case to_real_tensor ev n e of
           Inl err \<Rightarrow> (Inl err, [])
         | Inr out \<Rightarrow>
             (case to_real_tensors ev fm (Suc n) es of
                (Inl err, impls) \<Rightarrow> (Inl err, (n, e) # impls)
              | (Inr rs, impls) \<Rightarrow> (Inr (Tensor out # rs), (n, e) # impls)))
      else
        (case to_real_tensors ev fm n es of
           (Inl err, impls) \<Rightarrow> (Inl err, impls)
         | (Inr rs, impls) \<Rightarrow> (Inr (Tensor e # rs), impls)))"

text \<open>The real tensors made: one for every entry of \<open>inp_impls\<close>.\<close>

definition made_tensors :: "(nat \<times> tensor) list \<Rightarrow> tensor list" where
  "made_tensors impls = map (\<lambda>(n, e). new_real_tensor n e) impls"

text \<open>The set \<open>storages\<close>: the storage of every tensor argument that is not sparse.\<close>

definition storages_of :: "leaf list \<Rightarrow> nat set" where
  "storages_of flat_args =
     set (concat (map (\<lambda>e. case e of
                             Tensor t \<Rightarrow> (case layout t of Strided c \<Rightarrow> [c] | Sparse b \<Rightarrow> [])
                           | NonTensor v \<Rightarrow> []) flat_args))"

text \<open>
  \<open>fake_tensor_converter.from_real_tensor\<close>: a new fake tensor of the mode, made
  from a real one.
\<close>

definition from_real_tensor :: "nat \<Rightarrow> tensor \<Rightarrow> tensor" where
  "from_real_tensor fm t = t\<lparr>fake_of := Some fm, contents := no_data\<rparr>"

text \<open>
  \<open>map_out\<close>: an output that is not a recorded realization but is a tensor, not
  sparse, whose storage is among the arguments' storages raises the exception handed
  in; a recorded realization maps back to the fake tensor it was made from; any other
  tensor becomes a new fake tensor, unless \<open>from_real_tensor\<close> raises; anything else
  is returned as it is.
\<close>

definition unsupported_alias :: "(nat \<rightharpoonup> tensor) \<Rightarrow> nat set \<Rightarrow> leaf \<Rightarrow> bool" where
  "unsupported_alias inp_impls storages e =
     (case e of
        NonTensor v \<Rightarrow> False
      | Tensor t \<Rightarrow>
          ident t \<notin> dom inp_impls \<and>
          (case layout t of Strided c \<Rightarrow> c \<in> storages | Sparse b \<Rightarrow> False))"

definition map_out ::
  "env \<Rightarrow> nat \<Rightarrow> error \<Rightarrow> (nat \<rightharpoonup> tensor) \<Rightarrow> nat set \<Rightarrow> leaf \<Rightarrow> error + leaf" where
  "map_out ev fm orig_not_implemented_exception inp_impls storages e =
     (if unsupported_alias inp_impls storages e then Inl orig_not_implemented_exception
      else case e of
        Tensor t \<Rightarrow>
          (case inp_impls (ident t) of
             Some f \<Rightarrow> Inr (Tensor f)
           | None \<Rightarrow>
               (case from_real_error ev t of
                  Some err \<Rightarrow> Inl err
                | None \<Rightarrow> Inr (Tensor (from_real_tensor fm t))))
      | NonTensor v \<Rightarrow> Inr e)"

text \<open>\<open>pytree.tree_map(map_out, r)\<close>: leaf by leaf, the first exception ends it.\<close>

fun tree_map_out :: "(leaf \<Rightarrow> error + leaf) \<Rightarrow> leaf list \<Rightarrow> error + leaf list" where
  "tree_map_out f [] = Inr []"
| "tree_map_out f (e # es) =
     (case f e of
        Inl err \<Rightarrow> Inl err
      | Inr x \<Rightarrow> (case tree_map_out f es of Inl err \<Rightarrow> Inl err | Inr xs \<Rightarrow> Inr (x # xs)))"

text \<open>
  The steps after the first call, in the order of the source: two warm-up launches
  (\<open>warmup_iters = 2\<close>), the start event, three timed launches (\<open>actual_iters = 3\<close>),
  the end event. \<open>run_steps\<close> goes through them until one raises, counting the
  launches.
\<close>

definition bench_steps :: "bench_step list" where
  "bench_steps =
     [launch 2, launch 3, start_events, launch 4, launch 5, launch 6, end_events]"

fun run_steps ::
  "(bench_step \<Rightarrow> error option) \<Rightarrow> bench_step list \<Rightarrow> nat \<Rightarrow> error option \<times> nat" where
  "run_steps f [] n = (None, n)"
| "run_steps f (s # ss) n =
     (let n' = (case s of launch k \<Rightarrow> n + 1 | start_events \<Rightarrow> n | end_events \<Rightarrow> n) in
      case f s of
        Some err \<Rightarrow> (Some err, n')
      | None \<Rightarrow> run_steps f ss n')"

text \<open>
  \<open>_maybe_run_and_benchmark_fallback_kernel\<close>. An operator tagged \<open>inplace_view\<close>
  raises the exception handed in before anything else is done. Otherwise the fake
  arguments are made real, the kernel is called once for its result, twice to warm up
  and three times between the two events; the mean time is the measured time over
  \<open>actual_iters = 3\<close>; the outputs are mapped back. An exception at any of these
  steps leaves the function there.
\<close>

definition maybe_run_and_benchmark_fallback_kernel ::
  "env \<Rightarrow> process \<Rightarrow> op_overload \<Rightarrow> leaf list \<Rightarrow> error \<Rightarrow>
   (error + leaf list \<times> real) \<times> process" where
  "maybe_run_and_benchmark_fallback_kernel ev p func flat_args orig_not_implemented_exception =
     (if inplace_view func then (Inl orig_not_implemented_exception, p)
      else case fake_mode p of
        None \<Rightarrow> (Inl AttributeError, p)
      | Some fm \<Rightarrow>
          (case to_real_tensors ev fm (fresh_handle flat_args) flat_args of
             (Inl err, impls) \<Rightarrow> (Inl err, p\<lparr>realized := realized p @ made_tensors impls\<rparr>)
           | (Inr real_args, impls) \<Rightarrow>
               (let p1 = p\<lparr>realized := realized p @ made_tensors impls\<rparr> in
                case real_call func real_args of
                  Inl err \<Rightarrow> (Inl err, p1\<lparr>launches := launches p1 + 1\<rparr>)
                | Inr r \<Rightarrow>
                    (case run_steps (\<lambda>s. raises func s real_args) bench_steps
                            (launches p1 + 1) of
                       (Some err, n) \<Rightarrow> (Inl err, p1\<lparr>launches := n\<rparr>)
                     | (None, n) \<Rightarrow>
                         (let actual_iters = 3;
                              p2 = p1\<lparr>launches := n\<rparr>;
                              cuda_time = elapsed_time func real_args;
                              mean_op_time = cuda_time / real actual_iters;
                              storages = storages_of real_args
                          in case tree_map_out
                                    (map_out ev fm orig_not_implemented_exception
                                       (map_of impls) storages) r of
                               Inl err \<Rightarrow> (Inl err, p2)
                             | Inr res \<Rightarrow> (Inr (res, mean_op_time), p2))))))"

text \<open>
  \<open>res = func(*args, **kwargs or {})\<close> followed by \<open>return (res, mean_op_time)\<close>: the
  operator is run under the symbolic mode and the given time is attached.
\<close>

definition run_symbolic ::
  "op_overload \<Rightarrow> leaf list \<Rightarrow> real \<Rightarrow> process \<Rightarrow> (error + leaf list \<times> real) \<times> process" where
  "run_symbolic func flat_args t p =
     (case symbolic_call func flat_args of
        Inl err \<Rightarrow> (Inl err, p)
      | Inr res \<Rightarrow> (Inr (res, t), p))"

text \<open>
  \<open>_benchmark_estimate\<close>. Reading \<open>cls.fake_mode\<close> fails while the attribute is
  unassigned; an assigned one is a fake tensor mode, so the assertion holds. Only
  \<open>_VIEW_OPS\<close> are kept from the fallback kernel. A \<open>NotImplementedError\<close> out of it
  is caught: the packet is added to \<open>_no_fallback_kernel\<close> and the operator is run
  symbolically with \<open>mean_op_time\<close> still \<open>0.0\<close>. Any other exception propagates.
\<close>

definition benchmark_estimate ::
  "env \<Rightarrow> process \<Rightarrow> op_overload \<Rightarrow> leaf list \<Rightarrow> (error + leaf list \<times> real) \<times> process" where
  "benchmark_estimate ev p func flat_args =
     (case fake_mode p of
        None \<Rightarrow> (Inl AttributeError, p)
      | Some fm \<Rightarrow>
          (if overloadpacket func \<notin> VIEW_OPS then
             (case maybe_run_and_benchmark_fallback_kernel ev p func flat_args NotImplementedError of
                (Inr (res, mean_op_time), p') \<Rightarrow> (Inr (res, mean_op_time), p')
              | (Inl err, p') \<Rightarrow>
                  (if err = NotImplementedError then
                     run_symbolic func flat_args 0
                       (p'\<lparr>no_fallback_kernel :=
                             insert (overloadpacket func) (no_fallback_kernel p')\<rparr>)
                   else (Inl err, p')))
           else run_symbolic func flat_args 0 p))"

section \<open>The roofline strategy\<close>

text \<open>
  Calling a classmethod passes the class first and the written arguments after it. A
  function declared with \<open>declared\<close> parameters (no defaults, no \<open>*args\<close>) accepts the
  call only if that makes exactly \<open>declared\<close> arguments; otherwise the call raises
  \<open>TypeError\<close> and the body does not run.
\<close>

definition classmethod_accepts :: "nat \<Rightarrow> nat \<Rightarrow> bool" where
  "classmethod_accepts declared written = (Suc written = declared)"

text \<open>
  \<open>get_num_bytes\<close>: the storage size rounded up to a multiple of
  \<open>_PYTORCH_MIN_ALLOCATE\<close>.
\<close>

definition get_num_bytes :: "env \<Rightarrow> tensor \<Rightarrow> nat" where
  "get_num_bytes ev t =
     (let num_bytes = nbytes t;
          mem_consumed =
            nat \<lceil>real num_bytes / real (PYTORCH_MIN_ALLOCATE ev)\<rceil> * PYTORCH_MIN_ALLOCATE ev
      in mem_consumed)"

definition tensor_bytes :: "env \<Rightarrow> leaf list \<Rightarrow> nat" where
  "tensor_bytes ev leaves =
     sum_list (concat (map (\<lambda>e. case e of Tensor t \<Rightarrow> [get_num_bytes ev t] | NonTensor v \<Rightarrow> [])
                           leaves))"

text \<open>
  The body of \<open>_get_transfer_time\<close>, in nanoseconds. Dividing by a bandwidth of zero
  raises.
\<close>

definition get_transfer_time_body :: "env \<Rightarrow> leaf list \<Rightarrow> leaf list \<Rightarrow> error + real" where
  "get_transfer_time_body ev flat_args_kwargs flat_outs =
     (let gpu_memory_bandwidth = gpu_dram_gbps ev;
          read_bytes = tensor_bytes ev flat_args_kwargs;
          write_bytes = tensor_bytes ev flat_outs;
          counted_bytes = read_bytes + write_bytes
      in if gpu_memory_bandwidth = 0 then Inl ZeroDivisionError
         else Inr (real counted_bytes / gpu_memory_bandwidth))"

text \<open>
  \<open>cls._get_transfer_time(flat_args_kwargs, flat_outs)\<close>: the function is a
  classmethod declared with the two parameters \<open>(flat_args_kwargs, flat_outs)\<close>, and
  the call writes two arguments.
\<close>

definition get_transfer_time :: "env \<Rightarrow> leaf list \<Rightarrow> leaf list \<Rightarrow> error + real" where
  "get_transfer_time ev flat_args_kwargs flat_outs =
     (if classmethod_accepts 2 2 then get_transfer_time_body ev flat_args_kwargs flat_outs
      else Inl TypeError)"

text \<open>
  The set of floating dtypes among the tensor outputs, as a list without repetition.
\<close>

definition out_dtypes_of :: "leaf list \<Rightarrow> dtype list" where
  "out_dtypes_of flat_outs =
     remdups (concat (map (\<lambda>e. case e of
                                 Tensor t \<Rightarrow> (if dtype t \<in> float_types then [dtype t] else [])
                               | NonTensor v \<Rightarrow> []) flat_outs))"

text \<open>
  \<open>get_compute_time\<close> (nested in \<open>_roofline_estimate\<close>), in nanoseconds: zero for a
  packet without flop formula; otherwise exactly one output dtype is asserted, the
  formula's count is halved and divided by 75% of the device's peak.
\<close>

definition get_compute_time ::
  "env \<Rightarrow> process \<Rightarrow> string \<Rightarrow> leaf list \<Rightarrow> leaf list \<Rightarrow> dtype list \<Rightarrow> error + real" where
  "get_compute_time ev p func_packet args out out_dtypes =
     (case flop_registry p func_packet of
        None \<Rightarrow> Inr 0
      | Some flop_count_func \<Rightarrow>
          (if length out_dtypes \<noteq> 1 then Inl AssertionError
           else
             (let dt = hd out_dtypes;
                  peak_gpu_flops = device_tflops ev dt * 10 ^ 15;
                  factor = 0.75;
                  peak_empirical_flops = factor * peak_gpu_flops
              in case flop_count_func args out of
                   Inl err \<Rightarrow> Inl err
                 | Inr flops \<Rightarrow>
                     (let flop_count = flops / 2
                      in if peak_empirical_flops = 0 then Inl ZeroDivisionError
                         else Inr ((flop_count / peak_empirical_flops) * 10 ^ 9)))))"

text \<open>
  \<open>_roofline_estimate\<close>: asserts the device, runs the operator under the symbolic
  mode, and for a packet outside \<open>_IGNORE_OPS\<close> takes the larger of the transfer and
  the compute time, in milliseconds.
\<close>

definition roofline_estimate ::
  "env \<Rightarrow> process \<Rightarrow> op_overload \<Rightarrow> leaf list \<Rightarrow> (error + leaf list \<times> real) \<times> process" where
  "roofline_estimate ev p func flat_args_kwargs =
     (if \<not> cuda_is_available ev then (Inl AssertionError, p)
      else case symbolic_call func flat_args_kwargs of
        Inl err \<Rightarrow> (Inl err, p)
      | Inr out \<Rightarrow>
          (let func_packet = overloadpacket func in
           if func_packet \<notin> IGNORE_OPS then
             (case get_transfer_time ev flat_args_kwargs out of
                Inl err \<Rightarrow> (Inl err, p)
              | Inr transfer_time \<Rightarrow>
                  (let out_dtypes = out_dtypes_of out in
                   case get_compute_time ev p func_packet flat_args_kwargs out out_dtypes of
                     Inl err \<Rightarrow> (Inl err, p)
                   | Inr compute_time \<Rightarrow>
                       (Inr (out, max transfer_time compute_time / 10 ^ 6), p)))
           else (Inr (out, 0), p)))"

section \<open>The learned strategy\<close>

text \<open>
  \<open>register_timing_formula(targets)(f)\<close>: each target that \<open>flop_registry\<close> already
  holds raises \<open>RuntimeError\<close>; otherwise the formula is stored in \<open>flop_registry\<close>.
\<close>

fun register_timing_formula ::
  "string list \<Rightarrow> formula \<Rightarrow> (string \<rightharpoonup> formula) \<Rightarrow> (error + unit) \<times> (string \<rightharpoonup> formula)" where
  "register_timing_formula [] f reg = (Inr (), reg)"
| "register_timing_formula (target # targets) f reg =
     (if target \<in> dom reg then (Inl RuntimeError, reg)
      else register_timing_formula targets f (reg(target \<mapsto> f)))"

text \<open>
  The body of \<open>_learned_estimate_predictor\<close>, as far as it runs. The first decorator,
  \<open>@register_timing_formula([aten.mm, aten.addmm])\<close>, stores the wrapped \<open>mm_time\<close>
  under the two packets and raises \<open>RuntimeError\<close> at the first of them that
  \<open>flop_registry\<close> already holds. The second decorator's target list is
  \<open>[aten.bmm, aten.baddmm]\<close>: \<open>torch.ops.aten\<close> has no operator \<open>baddmm\<close> (the batched
  operator is \<open>baddbmm\<close>), so the list raises \<open>AttributeError\<close> when it is built.
  Nothing after it is reached: not the other decorators, and not the test of
  \<open>_LEARNED_OPS\<close> with its assertion on the output dtypes.
\<close>

definition learned_estimate_predictor_body ::
  "env \<Rightarrow> process \<Rightarrow> string \<Rightarrow> leaf list \<Rightarrow> leaf list \<Rightarrow> dtype list \<Rightarrow>
   (error + real) \<times> process" where
  "learned_estimate_predictor_body ev p func_packet args out out_dtypes =
     (case register_timing_formula [''aten.mm'', ''aten.addmm''] (mm_time ev) (flop_registry p) of
        (Inl err, reg) \<Rightarrow> (Inl err, p\<lparr>flop_registry := reg\<rparr>)
      | (Inr u, reg) \<Rightarrow> (Inl AttributeError, p\<lparr>flop_registry := reg\<rparr>))"

text \<open>
  \<open>cls._learned_estimate_predictor(func_packet, args, kwargs, out, out_dtypes)\<close>: a
  classmethod declared with the five parameters
  \<open>(func_packet, args, kwargs, out, out_dtypes)\<close>, called with five written
  arguments.
\<close>

definition learned_estimate_predictor ::
  "env \<Rightarrow> process \<Rightarrow> string \<Rightarrow> leaf list \<Rightarrow> leaf list \<Rightarrow> dtype list \<Rightarrow>
   (error + real) \<times> process" where
  "learned_estimate_predictor ev p func_packet args out out_dtypes =
     (if classmethod_accepts 5 5
      then learned_estimate_predictor_body ev p func_packet args out out_dtypes
      else (Inl TypeError, p))"

text \<open>\<open>_learned_estimate\<close>: as the roofline strategy, with the predictor's time.\<close>

definition learned_estimate ::
  "env \<Rightarrow> process \<Rightarrow> op_overload \<Rightarrow> leaf list \<Rightarrow> (error + leaf list \<times> real) \<times> process" where
  "learned_estimate ev p func flat_args_kwargs =
     (if \<not> cuda_is_available ev then (Inl AssertionError, p)
      else case symbolic_call func flat_args_kwargs of
        Inl err \<Rightarrow> (Inl err, p)
      | Inr out \<Rightarrow>
          (let func_packet = overloadpacket func in
           if func_packet \<notin> IGNORE_OPS then
             (case get_transfer_time ev flat_args_kwargs out of
                Inl err \<Rightarrow> (Inl err, p)
              | Inr transfer_time \<Rightarrow>
                  (let out_dtypes = out_dtypes_of out in
                   case learned_estimate_predictor ev p func_packet flat_args_kwargs out
                          out_dtypes of
                     (Inl err, p') \<Rightarrow> (Inl err, p')
                   | (Inr compute_time, p') \<Rightarrow>
                       (Inr (out, max transfer_time compute_time / 10 ^ 6), p')))
           else (Inr (out, 0), p)))"

section \<open>Interception\<close>

text \<open>\<open>self._estimate(func, args, kwargs)\<close> for the strategy that \<open>__call__\<close> stored.\<close>

definition run_estimate ::
  "env \<Rightarrow> strategy \<Rightarrow> process \<Rightarrow> op_overload \<Rightarrow> leaf list \<Rightarrow>
   (error + leaf list \<times> real) \<times> process" where
  "run_estimate ev s p func flat_args =
     (case s of
        Benchmark \<Rightarrow> benchmark_estimate ev p func flat_args
      | Roofline \<Rightarrow> roofline_estimate ev p func flat_args
      | Learned \<Rightarrow> learned_estimate ev p func flat_args)"

text \<open>
  \<open>self.mod_runtimes[par][key] += op_time\<close> on the nested \<open>defaultdict\<close>: a missing
  scope starts as an empty inner dictionary, a missing key as \<open>0.0\<close>.
\<close>

definition add_runtime ::
  "string \<Rightarrow> real \<Rightarrow> string \<Rightarrow> (string \<rightharpoonup> (string \<rightharpoonup> real)) \<Rightarrow> (string \<rightharpoonup> (string \<rightharpoonup> real))" where
  "add_runtime key op_time par m =
     (let inner = (case m par of None \<Rightarrow> Map.empty | Some d \<Rightarrow> d);
          old = (case inner key of None \<Rightarrow> 0 | Some v \<Rightarrow> v)
      in m(par \<mapsto> inner(key \<mapsto> old + op_time)))"

text \<open>\<open>runtimes.get(key, 0.0)\<close> for the scope's record, zero for a scope without one.\<close>

definition runtime_of :: "(string \<rightharpoonup> (string \<rightharpoonup> real)) \<Rightarrow> string \<Rightarrow> string \<Rightarrow> real" where
  "runtime_of m scope key =
     (case m scope of
        None \<Rightarrow> 0
      | Some d \<Rightarrow> (case d key of None \<Rightarrow> 0 | Some v \<Rightarrow> v))"

definition phase_key :: "bool \<Rightarrow> string" where
  "phase_key bw = (if bw then ''bw'' else ''fw'')"

text \<open>
  \<open>__torch_dispatch__\<close>: the strategy's time is added, for every scope the tracker
  reports open (a set: each scope once), under \<open>bw\<close> or \<open>fw\<close> by the tracker's phase
  flag, and to the total. An exception of the strategy leaves before anything is
  added.
\<close>

definition torch_dispatch ::
  "env \<Rightarrow> op_overload \<Rightarrow> leaf list \<Rightarrow> estimator \<times> process \<Rightarrow>
   (error + leaf list) \<times> estimator \<times> process" where
  "torch_dispatch ev func flat_args s =
     (case s of (self, p) \<Rightarrow>
        (case estimate self of
           None \<Rightarrow> (Inl AttributeError, self, p)
         | Some strat \<Rightarrow>
             (case run_estimate ev strat p func flat_args of
                (Inl err, p') \<Rightarrow> (Inl err, self, p')
              | (Inr (res, op_time), p') \<Rightarrow>
                  (Inr res,
                   self\<lparr>mod_runtimes :=
                          fold (add_runtime (phase_key (is_bw (tracker self))) op_time)
                               (remdups (parents (tracker self))) (mod_runtimes self),
                        total_runtime := total_runtime self + op_time\<rparr>,
                   p'))))"

section \<open>An activation window\<close>

text \<open>
  One intercepted invocation: the operator, its flattened arguments, and what the
  tracker reports at that moment (the open scopes and the phase flag).
\<close>

record invocation =
  inv_func :: op_overload
  inv_args :: "leaf list"
  inv_parents :: "string list"
  inv_is_bw :: bool

definition at_invocation :: "invocation \<Rightarrow> estimator \<Rightarrow> estimator" where
  "at_invocation i self =
     self\<lparr>tracker := (tracker self)\<lparr>parents := inv_parents i, is_bw := inv_is_bw i\<rparr>\<rparr>"

definition intercept ::
  "env \<Rightarrow> invocation \<Rightarrow> estimator \<times> process \<Rightarrow> (error + leaf list) \<times> estimator \<times> process" where
  "intercept ev i s =
     (case s of (self, p) \<Rightarrow> torch_dispatch ev (inv_func i) (inv_args i) (at_invocation i self, p))"

text \<open>
  The elapsed time of an invocation is the time its strategy returns; an invocation
  whose strategy raises has none.
\<close>

definition elapsed_ms :: "env \<Rightarrow> invocation \<Rightarrow> estimator \<times> process \<Rightarrow> real option" where
  "elapsed_ms ev i s =
     (case s of (self, p) \<Rightarrow>
        (case estimate self of
           None \<Rightarrow> None
         | Some strat \<Rightarrow>
             (case fst (run_estimate ev strat p (inv_func i) (inv_args i)) of
                Inl err \<Rightarrow> None
              | Inr (res, op_time) \<Rightarrow> Some op_time)))"

text \<open>
  What happens inside a window: an operator is intercepted, or the tracker calls one
  of the four hooks with a scope's qualified name. An invocation that raises adds
  nothing; the window goes on with the state it left (the caller may catch the
  exception).
\<close>

datatype event = Intercepted invocation | Scope_hook hook string

fun step :: "env \<Rightarrow> event \<Rightarrow> estimator \<times> process \<Rightarrow> estimator \<times> process" where
  "step ev (Intercepted i) s = snd (intercept ev i s)"
| "step ev (Scope_hook h fqn) s = (user_hook h fqn (fst s), snd s)"

fun run_window :: "env \<Rightarrow> event list \<Rightarrow> estimator \<times> process \<Rightarrow> estimator \<times> process" where
  "run_window ev [] s = s"
| "run_window ev (e # rest) s = run_window ev rest (step ev e s)"

fun event_time :: "env \<Rightarrow> event \<Rightarrow> estimator \<times> process \<Rightarrow> (invocation \<times> real) list" where
  "event_time ev (Intercepted i) s = (case elapsed_ms ev i s of None \<Rightarrow> [] | Some t \<Rightarrow> [(i, t)])"
| "event_time ev (Scope_hook h fqn) s = []"

text \<open>The invocations of a window that returned, each with its elapsed time.\<close>

fun window_times ::
  "env \<Rightarrow> event list \<Rightarrow> estimator \<times> process \<Rightarrow> (invocation \<times> real) list" where
  "window_times ev [] s = []"
| "window_times ev (e # rest) s = event_time ev e s @ window_times ev rest (step ev e s)"

fun invocations :: "event list \<Rightarrow> invocation list" where
  "invocations [] = []"
| "invocations (Intercepted i # rest) = i # invocations rest"
| "invocations (Scope_hook h fqn # rest) = invocations rest"

text \<open>
  The elapsed times of the invocations that occurred while the scope was open and the
  phase flag had the given value.
\<close>

definition attributed :: "string \<Rightarrow> bool \<Rightarrow> (invocation \<times> real) list \<Rightarrow> real list" where
  "attributed scope bw entries =
     map snd (filter (\<lambda>(i, t). scope \<in> set (inv_parents i) \<and> inv_is_bw i = bw) entries)"

text \<open>
  Scope \<open>a\<close> encloses scope \<open>d\<close> in a window when the tracker reports \<open>a\<close> open at
  every invocation at which it reports \<open>d\<close> open.
\<close>

definition encloses :: "string \<Rightarrow> string \<Rightarrow> event list \<Rightarrow> bool" where
  "encloses a d evs =
     (\<forall>i \<in> set (invocations evs). d \<in> set (inv_parents i) \<longrightarrow> a \<in> set (inv_parents i))"

text \<open>The device never measures a negative time.\<close>

definition measures_nonnegative :: "event list \<Rightarrow> bool" where
  "measures_nonnegative evs =
     (\<forall>i \<in> set (invocations evs). \<forall>xs. 0 \<le> elapsed_time (inv_func i) xs)"

section \<open>Example inputs\<close>

text \<open>
  A matrix multiply of a \<open>128 \<times> 64\<close> by a \<open>64 \<times> 32\<close> float32 matrix under fake mode
  \<open>7\<close>: the operands hold \<open>128 \<sqdot> 64 \<sqdot> 4\<close> and \<open>64 \<sqdot> 32 \<sqdot> 4\<close> bytes, the result
  \<open>128 \<sqdot> 32 \<sqdot> 4\<close>. The real kernel returns a new tensor and three timed calls take
  three milliseconds.
\<close>

definition fake_a :: tensor where
  "fake_a = \<lparr>ident = 1, dtype = float32, layout = Strided 1, nbytes = 32768,
             fake_of = Some 7, contents = no_data\<rparr>"

definition fake_b :: tensor where
  "fake_b = \<lparr>ident = 2, dtype = float32, layout = Strided 2, nbytes = 8192,
             fake_of = Some 7, contents = no_data\<rparr>"

definition fake_c :: tensor where
  "fake_c = \<lparr>ident = 3, dtype = float32, layout = Strided 3, nbytes = 16384,
             fake_of = Some 7, contents = no_data\<rparr>"

definition real_c :: tensor where
  "real_c = \<lparr>ident = 50, dtype = float32, layout = Strided 50, nbytes = 16384,
             fake_of = None, contents = computed\<rparr>"

definition mm_op :: op_overload where
  "mm_op = \<lparr>overloadpacket = ''aten.mm'', inplace_view = False,
            symbolic_call = (\<lambda>xs. Inr [Tensor fake_c]),
            real_call = (\<lambda>xs. Inr [Tensor real_c]),
            raises = (\<lambda>s xs. None),
            elapsed_time = (\<lambda>xs. 3)\<rparr>"

definition mm_args :: "leaf list" where
  "mm_args = [Tensor fake_a, Tensor fake_b]"

definition mm_flop :: formula where
  "mm_flop = (\<lambda>args out. Inr (2 * 128 * 64 * 32))"

text \<open>An elementwise operator without flop formula.\<close>

definition relu_op :: op_overload where
  "relu_op = \<lparr>overloadpacket = ''aten.relu'', inplace_view = False,
              symbolic_call = (\<lambda>xs. Inr [Tensor fake_c]),
              real_call = (\<lambda>xs. Inr [Tensor real_c]),
              raises = (\<lambda>s xs. None),
              elapsed_time = (\<lambda>xs. 3)\<rparr>"

text \<open>A tensor creation operator of \<open>_CREATE_OPS\<close>.\<close>

definition ones_like_op :: op_overload where
  "ones_like_op = \<lparr>overloadpacket = ''aten.ones_like'', inplace_view = False,
                   symbolic_call = (\<lambda>xs. Inr [Tensor fake_c]),
                   real_call = (\<lambda>xs. Inr [Tensor real_c]),
                   raises = (\<lambda>s xs. None),
                   elapsed_time = (\<lambda>xs. 3)\<rparr>"




text \<open>An operator tagged \<open>inplace_view\<close>.\<close>

definition transpose_inplace_op :: op_overload where
  "transpose_inplace_op = \<lparr>overloadpacket = ''aten.transpose_'', inplace_view = True,
                           symbolic_call = (\<lambda>xs. Inr [Tensor fake_a]),
                           real_call = (\<lambda>xs. Inr [Tensor real_c]),
                           raises = (\<lambda>s xs. None),
                           elapsed_time = (\<lambda>xs. 3)\<rparr>"














definition example_env :: env where
  "example_env = \<lparr>cuda_is_available = True, gpu_dram_gbps = 1000,
                  device_tflops = (\<lambda>d. 1), active_fake_mode = Some 7,
                  NO_CUDA_MEMORY_CACHING = 0,
                  like_error = (\<lambda>t. None), from_real_error = (\<lambda>t. None),
                  mm_time = (\<lambda>args out. Inl TypeError)\<rparr>"

definition example_process :: process where
  "example_process = \<lparr>fake_mode = Some 7, no_fallback_kernel = {},
                      flop_registry = [''aten.mm'' \<mapsto> mm_flop],
                      realized = [], launches = 0\<rparr>"


text \<open>A new \<open>RuntimeEstimator()\<close>, and the same after \<open>__call__\<close>.\<close>

definition new_estimator :: estimator where
  "new_estimator =
     \<lparr>estimate = None, estimate_mode_type = None,
      tracker = \<lparr>parents = [''Global''], is_bw = False, user_hooks = False, tracking = False\<rparr>,
      mod_runtimes = Map.empty,
      mod_fw_pre_order = [], mod_bw_pre_order = [],
      mod_fw_post_order = [], mod_bw_post_order = [],
      total_runtime = 0, intercepting = False\<rparr>"

definition benchmark_estimator :: estimator where
  "benchmark_estimator =
     new_estimator\<lparr>estimate := Some Benchmark,
                   estimate_mode_type := Some ''operator-level-benchmark''\<rparr>"

text \<open>
  A window of two matrix multiplies: one in the forward pass inside the scopes
  \<open>Global\<close> and \<open>Global.fc\<close>, one in the backward pass inside \<open>Global\<close> only.
\<close>

definition fw_mm :: invocation where
  "fw_mm = \<lparr>inv_func = mm_op, inv_args = mm_args,
            inv_parents = [''Global'', ''Global.fc''], inv_is_bw = False\<rparr>"

definition bw_mm :: invocation where
  "bw_mm = \<lparr>inv_func = mm_op, inv_args = mm_args,
            inv_parents = [''Global''], inv_is_bw = True\<rparr>"

definition example_window :: "event list" where
  "example_window =
     [Scope_hook pre_fw_hook ''Global.fc'',
      Intercepted fw_mm,
      Scope_hook post_fw_hook ''Global.fc'',
      Scope_hook pre_bw_hook ''Global.fc'',
      Scope_hook post_bw_hook ''Global.fc'',
      Intercepted bw_mm]"

text \<open>
  The window run by a benchmarking estimator that was entered under fake mode \<open>7\<close>,
  and the same estimator once the \<open>with\<close> block is left.
\<close>

definition example_entered :: "estimator \<times> process" where
  "example_entered = snd (estimator_enter example_env (benchmark_estimator, example_process))"

definition example_left :: "estimator \<times> process" where
  "example_left = snd (estimator_exit None (run_window example_env example_window example_entered))"


text \<open>
  The accumulators of an instance: the scope runtime records, the four order logs
  and the total runtime.
\<close>

definition accumulators ::
  "estimator \<Rightarrow>
   (string \<rightharpoonup> (string \<rightharpoonup> real)) \<times> string list \<times> string list \<times> string list \<times> string list \<times> real" where
  "accumulators self =
     (mod_runtimes self, mod_fw_pre_order self, mod_bw_pre_order self,
      mod_fw_post_order self, mod_bw_post_order self, total_runtime self)"

section \<open>Properties\<close>

subsection \<open>Collections of defining equations\<close>

lemmas ops_defs = IGNORE_OPS_def VIEW_OPS_def CREATE_OPS_def

lemmas kernel_defs =
  fresh_handle_def handles_of_def is_our_fake_def is_sparse_def to_real_tensor_def
  made_tensors_def storages_of_def bench_steps_def map_out_def unsupported_alias_def
  new_real_tensor_def from_real_tensor_def float_types_def

subsection \<open>The transfer time helper\<close>

text \<open>
  The call \<open>cls._get_transfer_time(flat_args_kwargs, flat_outs)\<close> hands three
  arguments to a function of two parameters.
\<close>

lemma get_transfer_time_raises: "get_transfer_time ev xs ys = Inl TypeError"
  by (simp add: get_transfer_time_def classmethod_accepts_def)

lemma roofline_time_zero:
  "roofline_estimate ev p func xs = (Inr (res, t), p') \<Longrightarrow> t = 0"
  by (auto simp: roofline_estimate_def get_transfer_time_raises Let_def
           split: if_splits sum.splits)

lemma learned_time_zero:
  "learned_estimate ev p func xs = (Inr (res, t), p') \<Longrightarrow> t = 0"
  by (auto simp: learned_estimate_def get_transfer_time_raises Let_def
           split: if_splits sum.splits)

subsection \<open>The fallback kernel\<close>

lemma run_symbolic_time:
  "run_symbolic func xs t0 p = (Inr (res, t), p') \<Longrightarrow> t = t0"
  by (auto simp: run_symbolic_def split: sum.splits)


lemma fallback_kernel_time:
  assumes "maybe_run_and_benchmark_fallback_kernel ev p func xs exc = (Inr (res, t), p')"
  shows "\<exists>ys. t = elapsed_time func ys / 3"
proof -
  from assms obtain fm where fm: "fake_mode p = Some fm" and tag: "\<not> inplace_view func"
    by (auto simp: maybe_run_and_benchmark_fallback_kernel_def split: if_splits option.splits)
  obtain ra impls where
    re: "to_real_tensors ev fm (fresh_handle xs) xs = (ra, impls)"
    by (cases "to_real_tensors ev fm (fresh_handle xs) xs")
  from assms fm tag re obtain real_args where ra: "ra = Inr real_args"
    by (cases ra) (auto simp: maybe_run_and_benchmark_fallback_kernel_def)
  from assms fm tag re ra have "t = elapsed_time func real_args / 3"
    by (auto simp: maybe_run_and_benchmark_fallback_kernel_def Let_def
          split: sum.splits prod.splits option.splits)
  then show ?thesis by blast
qed







lemma benchmark_time_nonneg:
  assumes "benchmark_estimate ev p func xs = (Inr (res, t), p')"
    and "\<forall>ys. 0 \<le> elapsed_time func ys"
  shows "0 \<le> t"
proof (cases "fake_mode p")
  case None
  with assms(1) show ?thesis by (simp add: benchmark_estimate_def)
next
  case (Some fm)
  show ?thesis
  proof (cases "overloadpacket func \<in> VIEW_OPS")
    case True
    with Some assms(1) have "run_symbolic func xs 0 p = (Inr (res, t), p')"
      by (simp add: benchmark_estimate_def)
    from run_symbolic_time [OF this] show ?thesis by simp
  next
    case False
    obtain r q where
      k: "maybe_run_and_benchmark_fallback_kernel ev p func xs NotImplementedError = (r, q)"
      by (cases "maybe_run_and_benchmark_fallback_kernel ev p func xs NotImplementedError")
    show ?thesis
    proof (cases r)
      case (Inl err)
      with Some False k assms(1) have
        "run_symbolic func xs 0
           (q\<lparr>no_fallback_kernel := insert (overloadpacket func) (no_fallback_kernel q)\<rparr>)
         = (Inr (res, t), p')"
        by (simp add: benchmark_estimate_def split: if_splits)
      from run_symbolic_time [OF this] show ?thesis by simp
    next
      case (Inr rt)
      obtain res' t' where rt: "rt = (res', t')" by (cases rt)
      with Some False k Inr assms(1) have "t' = t"
        by (simp add: benchmark_estimate_def)
      moreover from k Inr rt obtain ys where "t' = elapsed_time func ys / 3"
        using fallback_kernel_time by blast
      moreover have "0 \<le> elapsed_time func ys" using assms(2) by blast
      ultimately show ?thesis by simp
    qed
  qed
qed

lemma run_estimate_time_nonneg:
  assumes "run_estimate ev strat p func xs = (Inr (res, t), p')"
    and "\<forall>ys. 0 \<le> elapsed_time func ys"
  shows "0 \<le> t"
proof (cases strat)
  case Benchmark
  with assms(1) have "benchmark_estimate ev p func xs = (Inr (res, t), p')"
    by (simp add: run_estimate_def)
  from benchmark_time_nonneg [OF this assms(2)] show ?thesis .
next
  case Roofline
  with assms(1) have "roofline_estimate ev p func xs = (Inr (res, t), p')"
    by (simp add: run_estimate_def)
  from roofline_time_zero [OF this] show ?thesis by simp
next
  case Learned
  with assms(1) have "learned_estimate ev p func xs = (Inr (res, t), p')"
    by (simp add: run_estimate_def)
  from learned_time_zero [OF this] show ?thesis by simp
qed

subsection \<open>Accumulation\<close>

lemma runtime_of_add_runtime:
  "runtime_of (add_runtime key t par m) scope k =
     runtime_of m scope k + (if scope = par \<and> k = key then t else 0)"
  by (simp add: runtime_of_def add_runtime_def Let_def split: option.splits)

lemma runtime_of_fold_add_runtime:
  "distinct ps \<Longrightarrow>
   runtime_of (fold (add_runtime key t) ps m) scope k =
     runtime_of m scope k + (if scope \<in> set ps \<and> k = key then t else 0)"
proof (induction ps arbitrary: m)
  case Nil
  then show ?case by simp
next
  case (Cons a ps)
  then show ?case by (auto simp: runtime_of_add_runtime)
qed

lemma phase_key_eq: "(phase_key a = phase_key b) = (a = b)"
  by (simp add: phase_key_def)

lemma intercept_accumulates:
  "mod_runtimes (fst (snd (intercept ev i s))) =
     (case elapsed_ms ev i s of
        None \<Rightarrow> mod_runtimes (fst s)
      | Some t \<Rightarrow> fold (add_runtime (phase_key (inv_is_bw i)) t) (remdups (inv_parents i))
                    (mod_runtimes (fst s)))
   \<and> total_runtime (fst (snd (intercept ev i s))) =
     (case elapsed_ms ev i s of
        None \<Rightarrow> total_runtime (fst s)
      | Some t \<Rightarrow> total_runtime (fst s) + t)"
proof -
  obtain self p where s: "s = (self, p)" by (cases s)
  show ?thesis
  proof (cases "estimate self")
    case None
    then show ?thesis
      by (simp add: s intercept_def torch_dispatch_def elapsed_ms_def at_invocation_def)
  next
    case (Some strat)
    obtain r p' where run: "run_estimate ev strat p (inv_func i) (inv_args i) = (r, p')"
      by (cases "run_estimate ev strat p (inv_func i) (inv_args i)")
    show ?thesis
    proof (cases r)
      case (Inl err)
      with Some run show ?thesis
        by (simp add: s intercept_def torch_dispatch_def elapsed_ms_def at_invocation_def)
    next
      case (Inr rt)
      obtain res t where rt: "rt = (res, t)" by (cases rt)
      from Some run Inr rt show ?thesis
        by (simp add: s intercept_def torch_dispatch_def elapsed_ms_def at_invocation_def)
    qed
  qed
qed

lemma user_hook_keeps_runtimes:
  "mod_runtimes (user_hook h fqn self) = mod_runtimes self \<and>
   total_runtime (user_hook h fqn self) = total_runtime self"
  by (cases h) (simp_all add: user_hook_def)

lemma attributed_append:
  "attributed scope bw (xs @ ys) = attributed scope bw xs @ attributed scope bw ys"
  by (simp add: attributed_def)

lemma step_scope_runtime:
  "runtime_of (mod_runtimes (fst (step ev e s))) scope (phase_key bw) =
     runtime_of (mod_runtimes (fst s)) scope (phase_key bw)
     + sum_list (attributed scope bw (event_time ev e s))"
proof (cases e)
  case (Intercepted i)
  show ?thesis
  proof (cases "elapsed_ms ev i s")
    case None
    then show ?thesis by (simp add: Intercepted intercept_accumulates attributed_def)
  next
    case (Some t)
    then show ?thesis
      by (simp add: Intercepted intercept_accumulates runtime_of_fold_add_runtime phase_key_eq
            attributed_def)
  qed
next
  case (Scope_hook h fqn)
  then show ?thesis by (simp add: user_hook_keeps_runtimes attributed_def)
qed

lemma step_total_runtime:
  "total_runtime (fst (step ev e s)) = total_runtime (fst s) + sum_list (map snd (event_time ev e s))"
proof (cases e)
  case (Intercepted i)
  then show ?thesis
    by (cases "elapsed_ms ev i s") (simp_all add: intercept_accumulates)
next
  case (Scope_hook h fqn)
  then show ?thesis by (simp add: user_hook_keeps_runtimes)
qed

lemma window_scope_runtime:
  "runtime_of (mod_runtimes (fst (run_window ev evs s))) scope (phase_key bw) =
     runtime_of (mod_runtimes (fst s)) scope (phase_key bw)
     + sum_list (attributed scope bw (window_times ev evs s))"
proof (induction evs arbitrary: s)
  case Nil
  then show ?case by (simp add: attributed_def)
next
  case (Cons e rest)
  have "runtime_of (mod_runtimes (fst (run_window ev (e # rest) s))) scope (phase_key bw) =
        runtime_of (mod_runtimes (fst (step ev e s))) scope (phase_key bw)
        + sum_list (attributed scope bw (window_times ev rest (step ev e s)))"
    using Cons.IH [of "step ev e s"] by simp
  also have "\<dots> = runtime_of (mod_runtimes (fst s)) scope (phase_key bw)
        + sum_list (attributed scope bw (window_times ev (e # rest) s))"
    by (simp only: step_scope_runtime window_times.simps attributed_append sum_list_append
          add.assoc)
  finally show ?case .
qed

lemma window_total_runtime:
  "total_runtime (fst (run_window ev evs s)) =
     total_runtime (fst s) + sum_list (map snd (window_times ev evs s))"
proof (induction evs arbitrary: s)
  case Nil
  then show ?case by simp
next
  case (Cons e rest)
  show ?case
    using Cons.IH [of "step ev e s"] by (simp add: step_total_runtime)
qed

lemma elapsed_ms_nonneg:
  assumes "elapsed_ms ev i s = Some t" and "\<forall>ys. 0 \<le> elapsed_time (inv_func i) ys"
  shows "0 \<le> t"
proof -
  obtain self p where s: "s = (self, p)" by (cases s)
  from assms(1) obtain strat where st: "estimate self = Some strat"
    by (auto simp: s elapsed_ms_def split: option.splits)
  obtain r p' where run: "run_estimate ev strat p (inv_func i) (inv_args i) = (r, p')"
    by (cases "run_estimate ev strat p (inv_func i) (inv_args i)")
  from assms(1) st run obtain res where "r = Inr (res, t)"
    by (auto simp: s elapsed_ms_def split: sum.splits)
  with run assms(2) show ?thesis using run_estimate_time_nonneg by blast
qed

lemma event_time_entries:
  assumes "(i, t) \<in> set (event_time ev e s)"
  shows "e = Intercepted i \<and> elapsed_ms ev i s = Some t"
  using assms by (cases e) (auto split: option.splits)

lemma window_times_entries:
  "(i, t) \<in> set (window_times ev evs s) \<Longrightarrow> measures_nonnegative evs \<Longrightarrow>
   i \<in> set (invocations evs) \<and> 0 \<le> t"
proof (induction evs arbitrary: s)
  case Nil
  then show ?case by simp
next
  case (Cons e rest)
  have rest_ok: "measures_nonnegative rest"
    using Cons.prems(2) by (cases e) (simp_all add: measures_nonnegative_def)
  from Cons.prems(1) consider
      (head) "(i, t) \<in> set (event_time ev e s)"
    | (tail) "(i, t) \<in> set (window_times ev rest (step ev e s))"
    by auto
  then show ?case
  proof cases
    case head
    from event_time_entries [OF head] have e: "e = Intercepted i"
      and el: "elapsed_ms ev i s = Some t" by simp_all
    have "\<forall>ys. 0 \<le> elapsed_time (inv_func i) ys"
      using Cons.prems(2) e by (simp add: measures_nonnegative_def)
    from elapsed_ms_nonneg [OF el this] e show ?thesis by simp
  next
    case tail
    from Cons.IH [OF tail rest_ok] show ?thesis by (cases e) simp_all
  qed
qed

lemma attributed_mono:
  "\<forall>(i, t) \<in> set entries. (d \<in> set (inv_parents i) \<longrightarrow> a \<in> set (inv_parents i)) \<and> 0 \<le> t \<Longrightarrow>
   sum_list (attributed d bw entries) \<le> sum_list (attributed a bw entries)"
proof (induction entries)
  case Nil
  then show ?case by (simp add: attributed_def)
next
  case (Cons e entries)
  obtain i t where e: "e = (i, t)" by (cases e)
  have ih: "sum_list (attributed d bw entries) \<le> sum_list (attributed a bw entries)"
    using Cons by simp
  have hd: "(d \<in> set (inv_parents i) \<longrightarrow> a \<in> set (inv_parents i)) \<and> 0 \<le> t"
    using Cons.prems e by simp
  show ?case using ih hd by (auto simp: attributed_def e)
qed

subsection \<open>The example window\<close>

lemma example_entered_eq:
  "example_entered =
     (benchmark_estimator\<lparr>tracker := \<lparr>parents = [''Global''], is_bw = False,
                                       user_hooks = True, tracking = True\<rparr>,
                          intercepting := True\<rparr>,
      example_process)"
  by (simp add: example_entered_def estimator_enter_def example_env_def benchmark_estimator_def
        new_estimator_def example_process_def)

lemma benchmark_mm:
  "fake_mode p = Some 7 \<Longrightarrow>
   benchmark_estimate example_env p mm_op mm_args =
     (Inr ([Tensor (from_real_tensor 7 real_c)], 1),
      p\<lparr>realized := realized p @ [new_real_tensor 3 fake_a, new_real_tensor 4 fake_b],
        launches := launches p + 6\<rparr>)"
  by (simp add: benchmark_estimate_def maybe_run_and_benchmark_fallback_kernel_def
        kernel_defs mm_op_def mm_args_def fake_a_def fake_b_def real_c_def example_env_def
        ops_defs Let_def)

lemma example_window_run:
  "total_runtime (fst (run_window example_env example_window example_entered)) = 2 \<and>
   runtime_of (mod_runtimes (fst (run_window example_env example_window example_entered)))
     ''Global'' ''fw'' = 1 \<and>
   runtime_of (mod_runtimes (fst (run_window example_env example_window example_entered)))
     ''Global.fc'' ''fw'' = 1 \<and>
   mod_fw_pre_order (fst (run_window example_env example_window example_entered))
     = [''Global.fc''] \<and>
   estimate_mode_type (fst (run_window example_env example_window example_entered))
     = Some ''operator-level-benchmark''"
  by (simp add: example_entered_eq example_window_def fw_mm_def bw_mm_def intercept_def
        torch_dispatch_def at_invocation_def run_estimate_def benchmark_estimator_def
        new_estimator_def user_hook_def benchmark_mm example_process_def add_runtime_def
        runtime_of_def phase_key_def Let_def)

lemma example_window_times:
  "window_times example_env example_window example_entered = [(fw_mm, 1), (bw_mm, 1)]"
  by (simp add: example_entered_eq example_window_def elapsed_ms_def intercept_def
        torch_dispatch_def at_invocation_def run_estimate_def benchmark_estimator_def
        new_estimator_def user_hook_def benchmark_mm example_process_def fw_mm_def bw_mm_def)

lemma exit_keeps_accumulators:
  "accumulators (fst (snd (estimator_exit exc s))) = accumulators (fst s)"
  by (cases s) (simp add: estimator_exit_def accumulators_def split: option.splits)

subsection \<open>C1: the roofline estimate of an operator with a flop formula\<close>

text \<open>
  C1. The claim: for an operator whose packet has a registered flop formula, such as
  the matrix multiply of a \<open>128 \<times> 64\<close> by a \<open>64 \<times> 32\<close> matrix, the roofline strategy
  returns the larger of the transfer time and the compute time, in milliseconds. The
  bodies compute those two times (here \<open>57344 / 1000\<close> nanoseconds for the rounded
  bytes over the bandwidth, and half the flop count over 75% of the peak), but the
  strategy itself returns nothing: its call of \<open>_get_transfer_time\<close> raises
  \<open>TypeError\<close>.
\<close>

theorem roofline_mm_raises:
  "overloadpacket mm_op \<notin> IGNORE_OPS \<and>
   flop_registry example_process (overloadpacket mm_op) = Some mm_flop \<and>
   get_transfer_time_body example_env mm_args [Tensor fake_c]
     = Inr ((32768 + 8192 + 16384) / 1000) \<and>
   get_compute_time example_env example_process ''aten.mm'' mm_args [Tensor fake_c]
       (out_dtypes_of [Tensor fake_c])
     = Inr (((2 * 128 * 64 * 32) / 2) / (0.75 * (1 * 10 ^ 15)) * 10 ^ 9) \<and>
   roofline_estimate example_env example_process mm_op mm_args = (Inl TypeError, example_process)"
  by (simp add: roofline_estimate_def get_transfer_time_def classmethod_accepts_def
        get_transfer_time_body_def get_compute_time_def out_dtypes_of_def tensor_bytes_def
        get_num_bytes_def PYTORCH_MIN_ALLOCATE_def float_types_def example_env_def
        example_process_def mm_op_def mm_args_def mm_flop_def fake_a_def fake_b_def fake_c_def
        ops_defs Let_def)

subsection \<open>C2: attribution of elapsed times to scopes\<close>

text \<open>
  C2. In a window that starts with a successful \<open>__enter__\<close>, for every scope and
  each of the two phases, the time recorded for the scope and phase is the sum of the
  elapsed times of the invocations that occurred while the tracker reported the scope
  open and the phase flag had that value; the total runtime is the sum of the elapsed
  times of all invocations; and when the device measures no negative time, a scope
  that is open whenever another one is has at least the other's recorded time.
\<close>

theorem window_attribution:
  assumes "estimator_enter ev (self, p) = (Inr (), s0)"
  shows "runtime_of (mod_runtimes (fst (run_window ev evs s0))) scope (phase_key bw)
           = sum_list (attributed scope bw (window_times ev evs s0)) \<and>
         total_runtime (fst (run_window ev evs s0))
           = sum_list (map snd (window_times ev evs s0)) \<and>
         (encloses a d evs \<and> measures_nonnegative evs \<longrightarrow>
            runtime_of (mod_runtimes (fst (run_window ev evs s0))) d (phase_key bw)
              \<le> runtime_of (mod_runtimes (fst (run_window ev evs s0))) a (phase_key bw))"
proof -
  from assms have start: "mod_runtimes (fst s0) = Map.empty" "total_runtime (fst s0) = 0"
    by (auto simp: estimator_enter_def split: option.splits)
  have zero: "\<And>sc k. runtime_of (mod_runtimes (fst s0)) sc k = 0"
    by (simp add: start runtime_of_def)
  have scope_sum: "\<And>sc. runtime_of (mod_runtimes (fst (run_window ev evs s0))) sc (phase_key bw)
           = sum_list (attributed sc bw (window_times ev evs s0))"
    by (simp add: window_scope_runtime zero)
  have total: "total_runtime (fst (run_window ev evs s0))
           = sum_list (map snd (window_times ev evs s0))"
    by (simp add: window_total_runtime start)
  have nested: "sum_list (attributed d bw (window_times ev evs s0))
                  \<le> sum_list (attributed a bw (window_times ev evs s0))"
    if enc: "encloses a d evs" and nn: "measures_nonnegative evs"
  proof (rule attributed_mono, clarify)
    fix i t
    assume "(i, t) \<in> set (window_times ev evs s0)"
    from window_times_entries [OF this nn] have "i \<in> set (invocations evs)" "0 \<le> t"
      by simp_all
    with enc show "(d \<in> set (inv_parents i) \<longrightarrow> a \<in> set (inv_parents i)) \<and> 0 \<le> t"
      by (simp add: encloses_def)
  qed
  from scope_sum total nested show ?thesis by simp
qed

text \<open>
  The example window: one millisecond in the forward pass for \<open>Global\<close> and for
  \<open>Global.fc\<close>, two milliseconds in total.
\<close>

theorem window_attribution_witness:
  "runtime_of (mod_runtimes (fst (run_window example_env example_window example_entered)))
     ''Global'' ''fw'' = 1 \<and>
   sum_list (attributed ''Global'' False (window_times example_env example_window example_entered))
     = 1 \<and>
   total_runtime (fst (run_window example_env example_window example_entered)) = 2 \<and>
   sum_list (map snd (window_times example_env example_window example_entered)) = 2 \<and>
   runtime_of (mod_runtimes (fst (run_window example_env example_window example_entered)))
     ''Global.fc'' ''fw''
   \<le> runtime_of (mod_runtimes (fst (run_window example_env example_window example_entered)))
     ''Global'' ''fw''"
proof -
  have e: "estimator_enter example_env (benchmark_estimator, example_process)
             = (Inr (), example_entered)"
    by (simp add: example_entered_def estimator_enter_def example_env_def)
  have enc: "encloses ''Global'' ''Global.fc'' example_window"
    by (simp add: encloses_def example_window_def fw_mm_def bw_mm_def)
  have nn: "measures_nonnegative example_window"
    by (simp add: measures_nonnegative_def example_window_def fw_mm_def bw_mm_def mm_op_def)
  have s: "sum_list (attributed ''Global'' False
             (window_times example_env example_window example_entered)) = 1"
    "sum_list (map snd (window_times example_env example_window example_entered)) = 2"
    unfolding example_window_times by (simp_all add: attributed_def fw_mm_def bw_mm_def)
  show ?thesis
    using window_attribution [OF e, of example_window "''Global''" False "''Global''" "''Global.fc''"]
      enc nn s
    by (simp add: phase_key_def)
qed

subsection \<open>C3: the call of the transfer time helper\<close>

text \<open>
  C3, as amended. \<open>_get_transfer_time\<close> is a classmethod declared with the two
  parameters \<open>(flat_args_kwargs, flat_outs)\<close>, so the call
  \<open>cls._get_transfer_time(flat_args_kwargs, flat_outs)\<close> always raises \<open>TypeError\<close>.
  For an operator whose packet is outside \<open>_IGNORE_OPS\<close>, the roofline and the learned
  strategy therefore never return a pair: they raise \<open>AssertionError\<close> when the device
  is not available, the operator's own exception when its symbolic execution raises,
  and \<open>TypeError\<close> in every other case.
\<close>

theorem transfer_time_call_raises:
  assumes "overloadpacket func \<notin> IGNORE_OPS"
  shows "get_transfer_time ev xs ys = Inl TypeError \<and>
         roofline_estimate ev p func xs =
           (if \<not> cuda_is_available ev then (Inl AssertionError, p)
            else case symbolic_call func xs of
                   Inl err \<Rightarrow> (Inl err, p)
                 | Inr out \<Rightarrow> (Inl TypeError, p)) \<and>
         learned_estimate ev p func xs =
           (if \<not> cuda_is_available ev then (Inl AssertionError, p)
            else case symbolic_call func xs of
                   Inl err \<Rightarrow> (Inl err, p)
                 | Inr out \<Rightarrow> (Inl TypeError, p))"
  using assms
  by (simp add: roofline_estimate_def learned_estimate_def get_transfer_time_raises Let_def
        split: sum.splits)

text \<open>The matrix multiply, with the device available.\<close>

theorem transfer_time_call_raises_witness:
  "roofline_estimate example_env example_process mm_op mm_args = (Inl TypeError, example_process) \<and>
   learned_estimate example_env example_process mm_op mm_args = (Inl TypeError, example_process)"
proof -
  have h: "overloadpacket mm_op \<notin> IGNORE_OPS" by (simp add: mm_op_def ops_defs)
  show ?thesis
    using transfer_time_call_raises [OF h, of example_env mm_args mm_args example_process]
    by (simp add: example_env_def mm_op_def)
qed

text \<open>
  C3 as stated fails where the device is not available: the matrix multiply is
  outside \<open>_IGNORE_OPS\<close>, and both strategies raise \<open>AssertionError\<close>, not
  \<open>TypeError\<close>.
\<close>

theorem strategies_without_device_assert:
  "overloadpacket mm_op \<notin> IGNORE_OPS \<and>
   fst (roofline_estimate (example_env\<lparr>cuda_is_available := False\<rparr>) example_process mm_op mm_args)
     = Inl AssertionError \<and>
   fst (learned_estimate (example_env\<lparr>cuda_is_available := False\<rparr>) example_process mm_op mm_args)
     = Inl AssertionError \<and>
   AssertionError \<noteq> TypeError"
  by (simp add: roofline_estimate_def learned_estimate_def example_env_def mm_op_def ops_defs)

subsection \<open>C4: operators that are not timed\<close>

text \<open>
  The roofline and the learned strategy attribute zero milliseconds to every packet
  of \<open>_IGNORE_OPS\<close>, and the benchmark strategy to every packet of \<open>_VIEW_OPS\<close>.
\<close>

lemma ignore_ops_not_timed:
  "overloadpacket func \<in> IGNORE_OPS \<Longrightarrow> cuda_is_available ev \<Longrightarrow>
     roofline_estimate ev p func xs = run_symbolic func xs 0 p \<and>
     learned_estimate ev p func xs = run_symbolic func xs 0 p"
  "overloadpacket func \<in> VIEW_OPS \<Longrightarrow> fake_mode p \<noteq> None \<Longrightarrow>
     benchmark_estimate ev p func xs = run_symbolic func xs 0 p"
  by (auto simp: roofline_estimate_def learned_estimate_def benchmark_estimate_def
        run_symbolic_def split: sum.splits)

text \<open>
  C4. The claim: every packet of the view set and every tensor creation packet gets
  zero milliseconds under each of the three strategies. The benchmark strategy keeps
  only \<open>_VIEW_OPS\<close> from the fallback kernel: \<open>aten.ones_like\<close>, a packet of
  \<open>_CREATE_OPS\<close>, is made real, run and timed, and comes back with the measured mean
  of one millisecond.
\<close>

theorem benchmark_times_ones_like:
  "overloadpacket ones_like_op \<in> CREATE_OPS \<and>
   overloadpacket ones_like_op \<in> IGNORE_OPS \<and>
   fst (benchmark_estimate example_env example_process ones_like_op [Tensor fake_a])
     = Inr ([Tensor (from_real_tensor 7 real_c)], 1) \<and>
   realized (snd (benchmark_estimate example_env example_process ones_like_op [Tensor fake_a]))
     = [new_real_tensor 2 fake_a] \<and>
   launches (snd (benchmark_estimate example_env example_process ones_like_op [Tensor fake_a])) = 6"
  by (simp add: benchmark_estimate_def maybe_run_and_benchmark_fallback_kernel_def kernel_defs
        ones_like_op_def example_process_def example_env_def fake_a_def real_c_def ops_defs
        Let_def)


subsection \<open>C5: what the benchmark strategy recovers from\<close>




subsection \<open>C6: operators that change metadata in place\<close>

text \<open>
  C6. For an operator tagged \<open>inplace_view\<close> the fallback kernel raises the
  exception it was handed before anything is made real; the benchmark strategy leaves
  the device as it was (no real tensor made, no kernel launched), and once the class
  has its fake mode it returns what the symbolic execution of the operator gives,
  with zero milliseconds.
\<close>

theorem inplace_view_never_realized:
  assumes "inplace_view func"
  shows "maybe_run_and_benchmark_fallback_kernel ev p func xs exc = (Inl exc, p) \<and>
         realized (snd (benchmark_estimate ev p func xs)) = realized p \<and>
         launches (snd (benchmark_estimate ev p func xs)) = launches p \<and>
         (fake_mode p \<noteq> None \<longrightarrow>
            fst (benchmark_estimate ev p func xs) =
              (case symbolic_call func xs of
                 Inl err \<Rightarrow> Inl err
               | Inr res \<Rightarrow> Inr (res, 0)))"
proof -
  have k: "\<And>exc. maybe_run_and_benchmark_fallback_kernel ev p func xs exc = (Inl exc, p)"
    using assms by (simp add: maybe_run_and_benchmark_fallback_kernel_def)
  show ?thesis
    by (cases "fake_mode p")
       (simp_all add: k benchmark_estimate_def run_symbolic_def split: sum.splits)
qed

text \<open>\<open>aten.transpose_\<close> on a fake tensor.\<close>

theorem inplace_view_never_realized_witness:
  "fst (benchmark_estimate example_env example_process transpose_inplace_op [Tensor fake_a])
     = Inr ([Tensor fake_a], 0) \<and>
   realized (snd (benchmark_estimate example_env example_process transpose_inplace_op
                    [Tensor fake_a])) = [] \<and>
   launches (snd (benchmark_estimate example_env example_process transpose_inplace_op
                    [Tensor fake_a])) = 0"
proof -
  have h: "inplace_view transpose_inplace_op" by (simp add: transpose_inplace_op_def)
  have f: "fake_mode example_process \<noteq> None" by (simp add: example_process_def)
  show ?thesis
    using inplace_view_never_realized
      [OF h, of example_env example_process "[Tensor fake_a]" NotImplementedError] f
    by (simp add: transpose_inplace_op_def example_process_def)
qed

subsection \<open>C7: deactivation\<close>

text \<open>
  C7, as amended. For an estimator whose strategy has been selected, \<open>__exit__\<close>,
  whatever exception ended the window, returns, clears the tracker's hooks, leaves
  the tracker and takes the instance off the dispatch mode stack; it leaves the
  scope runtime records, the four order logs and the total runtime as they are. They
  are reset by the next successful \<open>__enter__\<close>.
\<close>

theorem exit_clears_hooks_keeps_accumulators:
  "(estimate_mode_type self \<noteq> None \<longrightarrow>
      fst (estimator_exit exc (self, p)) = Inr () \<and>
      \<not> user_hooks (tracker (fst (snd (estimator_exit exc (self, p))))) \<and>
      \<not> tracking (tracker (fst (snd (estimator_exit exc (self, p))))) \<and>
      \<not> intercepting (fst (snd (estimator_exit exc (self, p)))) \<and>
      accumulators (fst (snd (estimator_exit exc (self, p)))) = accumulators self) \<and>
   (active_fake_mode ev \<noteq> None \<longrightarrow>
      fst (estimator_enter ev (self, p)) = Inr () \<and>
      user_hooks (tracker (fst (snd (estimator_enter ev (self, p))))) \<and>
      accumulators (fst (snd (estimator_enter ev (self, p)))) = (Map.empty, [], [], [], [], 0))"
  by (auto simp: estimator_exit_def estimator_enter_def accumulators_def)

text \<open>
  The example window, left through an exception: the hooks are gone, the two
  milliseconds stay, and entering again resets the accumulators.
\<close>

theorem exit_clears_hooks_keeps_accumulators_witness:
  "fst (estimator_exit (Some RuntimeError) (run_window example_env example_window example_entered))
     = Inr () \<and>
   \<not> user_hooks (tracker (fst (snd (estimator_exit (Some RuntimeError)
        (run_window example_env example_window example_entered))))) \<and>
   total_runtime (fst (snd (estimator_exit (Some RuntimeError)
        (run_window example_env example_window example_entered)))) = 2 \<and>
   accumulators (fst (snd (estimator_enter example_env
        (run_window example_env example_window example_entered))))
     = (Map.empty, [], [], [], [], 0)"
proof -
  have m: "estimate_mode_type (fst (run_window example_env example_window example_entered)) \<noteq> None"
    using example_window_run by simp
  have f: "active_fake_mode example_env \<noteq> None" by (simp add: example_env_def)
  have t: "total_runtime (fst (run_window example_env example_window example_entered)) = 2"
    using example_window_run by simp
  show ?thesis
    using exit_clears_hooks_keeps_accumulators
      [of "fst (run_window example_env example_window example_entered)" "Some RuntimeError"
          "snd (run_window example_env example_window example_entered)" example_env]
      m f t
    by (simp add: accumulators_def)
qed

text \<open>
  C7 as stated fails: after the example window is left, the total runtime is still two
  milliseconds, the forward time of \<open>Global\<close> is still one and the pre-forward order
  log still holds its entry. And for an estimator whose strategy was never selected,
  \<open>__exit__\<close> raises \<open>AttributeError\<close> with the hooks still registered.
\<close>

theorem exit_keeps_accumulators_example:
  "total_runtime (fst example_left) = 2 \<and>
   runtime_of (mod_runtimes (fst example_left)) ''Global'' ''fw'' = 1 \<and>
   mod_fw_pre_order (fst example_left) = [''Global.fc''] \<and>
   \<not> user_hooks (tracker (fst example_left)) \<and>
   fst (estimator_exit None (snd (estimator_enter example_env (new_estimator, example_process))))
     = Inl AttributeError \<and>
   user_hooks (tracker (fst (snd (estimator_exit None
                 (snd (estimator_enter example_env (new_estimator, example_process)))))))"
proof -
  have a: "accumulators (fst example_left)
           = accumulators (fst (run_window example_env example_window example_entered))"
    by (simp add: example_left_def exit_keeps_accumulators)
  have h: "\<not> user_hooks (tracker (fst example_left))"
    using example_window_run
    by (cases "run_window example_env example_window example_entered")
       (auto simp: example_left_def estimator_exit_def)
  have u: "fst (estimator_exit None (snd (estimator_enter example_env (new_estimator, example_process))))
             = Inl AttributeError \<and>
           user_hooks (tracker (fst (snd (estimator_exit None
                 (snd (estimator_enter example_env (new_estimator, example_process)))))))"
    by (simp add: estimator_exit_def estimator_enter_def example_env_def new_estimator_def)
  from a have "total_runtime (fst example_left)
                 = total_runtime (fst (run_window example_env example_window example_entered))"
    and "mod_runtimes (fst example_left)
                 = mod_runtimes (fst (run_window example_env example_window example_entered))"
    and "mod_fw_pre_order (fst example_left)
                 = mod_fw_pre_order (fst (run_window example_env example_window example_entered))"
    by (simp_all add: accumulators_def)
  with h u example_window_run show ?thesis by simp
qed

subsection \<open>C8: activation without a fake tensor mode\<close>

text \<open>
  C8. If no fake tensor mode is active when the estimator is entered, \<open>__enter__\<close>
  fails with an AssertionError and leaves the instance and the process state as they
  were: the instance is not put on the dispatch mode stack, so nothing is
  intercepted, and the total runtime, the scope runtime records and the four order
  logs are untouched.
\<close>

theorem enter_without_fake_mode:
  "active_fake_mode ev = None \<Longrightarrow>
   estimator_enter ev (self, p) = (Inl AssertionError, self, p)"
  by (simp add: estimator_enter_def)

text \<open>An estimator entered outside of any fake tensor mode.\<close>

theorem enter_without_fake_mode_witness:
  "estimator_enter (example_env\<lparr>active_fake_mode := None\<rparr>) (benchmark_estimator, example_process)
     = (Inl AssertionError, benchmark_estimator, example_process)"
  using enter_without_fake_mode
    [of "example_env\<lparr>active_fake_mode := None\<rparr>" benchmark_estimator example_process]
  by (simp add: example_env_def)

subsection \<open>C9: outputs of more than one floating precision\<close>



subsection \<open>C10: the roofline estimate of an operator without flop formula\<close>

text \<open>
  C10. The claim: for an operator outside \<open>_IGNORE_OPS\<close> without flop formula the
  compute time is zero and the roofline estimate is the transfer time in
  milliseconds. The compute time step does return zero and the body of the transfer
  time helper gives \<open>49152 / 1000\<close> nanoseconds for \<open>aten.relu\<close> here, but the strategy
  raises \<open>TypeError\<close> at its call of \<open>_get_transfer_time\<close> and returns no time.
\<close>

theorem roofline_relu_raises:
  "overloadpacket relu_op \<notin> IGNORE_OPS \<and>
   flop_registry example_process (overloadpacket relu_op) = None \<and>
   get_compute_time example_env example_process ''aten.relu'' [Tensor fake_a] [Tensor fake_c]
       (out_dtypes_of [Tensor fake_c]) = Inr 0 \<and>
   get_transfer_time_body example_env [Tensor fake_a] [Tensor fake_c]
     = Inr ((32768 + 16384) / 1000) \<and>
   roofline_estimate example_env example_process relu_op [Tensor fake_a]
     = (Inl TypeError, example_process)"
  by (simp add: roofline_estimate_def get_transfer_time_def classmethod_accepts_def
        get_transfer_time_body_def get_compute_time_def tensor_bytes_def get_num_bytes_def
        PYTORCH_MIN_ALLOCATE_def example_env_def example_process_def relu_op_def fake_a_def
        fake_c_def ops_defs Let_def)


end
